theory Spec2Isabelle
  imports Main
begin

section \<open>Python values used by the scoreboard\<close>

text \<open>
  A Python \<^verbatim>\<open>str\<close> is a sequence of Unicode code points, so \<^verbatim>\<open>len\<close> counts code
  points and \<^verbatim>\<open>s[:8]\<close> keeps the first eight of them. A code point is a natural
  number; the ASCII ones are those below 128. Literals of the source that are ASCII are
  written through \<open>ascii\<close>, the others by their code points.
\<close>

type_synonym str = "nat list"

definition ascii :: "string \<Rightarrow> str" where
  "ascii s = map of_char s"

text \<open>The exceptions that can leave a command, and the one limit of the typed model:
  \<open>IllTyped\<close> stands for a stored value whose JSON type is not the type the dataclass
  declares for the field (Python would keep the value unchecked).\<close>

datatype error = ValueError | TypeError | AttributeError | HTTPException | IllTyped

text \<open>\<^verbatim>\<open>str(x)\<close> for an integer: the decimal digits, after a minus sign when negative.\<close>

fun digits :: "nat \<Rightarrow> str" where
  "digits n = (if n < 10 then [48 + n] else digits (n div 10) @ [48 + n mod 10])"

declare digits.simps [simp del]

definition py_str :: "int \<Rightarrow> str" where
  "py_str x = (if x < 0 then 45 # digits (nat (- x)) else digits (nat x))"

text \<open>\<^verbatim>\<open>f"{x:+d}"\<close>: the sign is always written, \<open>+\<close> for every integer that is not
  negative.\<close>

definition fmt_plus_d :: "int \<Rightarrow> str" where
  "fmt_plus_d x = (if x < 0 then 45 else 43) # digits (nat \<bar>x\<bar>)"

text \<open>\<^verbatim>\<open>s.rjust(w)\<close> pads with spaces on the left up to \<open>w\<close> characters and never cuts.\<close>

definition rjust :: "nat \<Rightarrow> str \<Rightarrow> str" where
  "rjust w s = replicate (w - length s) 32 @ s"

text \<open>\<^verbatim>\<open>f"{s:>{w}}"\<close> for a string \<open>s\<close> and an integer \<open>w\<close>. For \<open>0 \<le> w\<close> it is
  \<open>rjust\<close>; for a negative \<open>w\<close> Python raises \<^verbatim>\<open>ValueError\<close> (a sign is not allowed in
  a string format specifier), which \<open>render\<close> below decides before it formats a cell.\<close>

definition fmt_right :: "int \<Rightarrow> str \<Rightarrow> str" where
  "fmt_right w s = rjust (nat w) s"

text \<open>\<^verbatim>\<open>s * n\<close>: the empty string for \<open>n \<le> 0\<close>.\<close>

definition times :: "str \<Rightarrow> int \<Rightarrow> str" where
  "times s n = concat (replicate (nat n) s)"

text \<open>\<^verbatim>\<open>sep.join(xs)\<close>.\<close>

fun join :: "str \<Rightarrow> str list \<Rightarrow> str" where
  "join sep [] = []"
| "join sep [x] = x"
| "join sep (x # y # ys) = x @ sep @ join sep (y # ys)"

section \<open>Model: Round and Board\<close>

text \<open>The fields \<^verbatim>\<open>a\<close> and \<^verbatim>\<open>b\<close> of \<^verbatim>\<open>Round\<close> are \<open>score_a\<close> and \<open>score_b\<close> here.\<close>

record Round =
  score_a :: int
  score_b :: int

record Board =
  title :: str
  player_a :: str
  player_b :: str
  rounds :: "Round list"
  message_id :: "int option"
  COL_RND :: int
  COL_PLY :: int
  zero_as_dash :: bool

text \<open>\<^verbatim>\<open>Board._is_ascii\<close>: encoding to ASCII succeeds when every code point is below
  128.\<close>

definition is_ascii :: "str \<Rightarrow> bool" where
  "is_ascii s = list_all (\<lambda>c. c < 128) s"

text \<open>\<^verbatim>\<open>Board._validate_name\<close>.\<close>

definition validate_name :: "str option \<Rightarrow> str option" where
  "validate_name name =
     (case name of
        None \<Rightarrow> None
      | Some n \<Rightarrow> if \<not> is_ascii n then None else Some (take 8 n))"

text \<open>\<^verbatim>\<open>Board.totals\<close>.\<close>

definition totals :: "Board \<Rightarrow> int \<times> int" where
  "totals board = (sum_list (map score_a (rounds board)), sum_list (map score_b (rounds board)))"

subsection \<open>render\<close>

text \<open>The helpers nested in \<^verbatim>\<open>render\<close> take what they capture (\<^verbatim>\<open>COL_RND\<close>, \<^verbatim>\<open>COL_PLY\<close>,
  \<^verbatim>\<open>self.zero_as_dash\<close>) as arguments.\<close>

text \<open>Every line of the table is built without its newline first (\<open>rule_line\<close>,
  \<open>header_line\<close>, \<open>body_line\<close>, \<open>totals_line\<close>, \<open>diff_line\<close>); \<open>hline\<close>, \<open>header\<close>,
  \<open>body\<close> and \<open>footer\<close> are the strings of the source, newlines included.\<close>

definition rule_line :: "int \<Rightarrow> int \<Rightarrow> str" where
  "rule_line col_rnd col_ply =
     ascii ''+'' @ times (ascii ''-'') col_rnd @ ascii ''+'' @ times (ascii ''-'') col_ply
       @ ascii ''+'' @ times (ascii ''-'') col_ply @ ascii ''+''"

definition hline :: "int \<Rightarrow> int \<Rightarrow> str" where
  "hline col_rnd col_ply = rule_line col_rnd col_ply @ [10]"

definition fmt_name :: "str \<Rightarrow> str" where
  "fmt_name name = (let safe = filter (\<lambda>c. c < 128) name; s = rjust 8 (take 8 safe)
                   in ascii '' '' @ s @ ascii '' '')"

definition fmt_rnd :: "int \<Rightarrow> str \<Rightarrow> str" where
  "fmt_rnd col_rnd text = fmt_right (col_rnd - 1) text @ ascii '' ''"

definition score_text :: "bool \<Rightarrow> int \<Rightarrow> str" where
  "score_text zero_dash x =
     (if x = 0 then (if zero_dash then ascii ''-'' else ascii ''0'') else py_str x)"

definition fmt_score_val :: "int \<Rightarrow> bool \<Rightarrow> int \<Rightarrow> str" where
  "fmt_score_val col_ply zero_dash x = fmt_right (col_ply - 1) (score_text zero_dash x) @ ascii '' ''"

definition fmt_score_signed :: "int \<Rightarrow> int \<Rightarrow> str" where
  "fmt_score_signed col_ply x = fmt_right (col_ply - 1) (fmt_plus_d x) @ ascii '' ''"

definition header_line :: "Board \<Rightarrow> str" where
  "header_line board =
     ascii ''|'' @ fmt_rnd (COL_RND board) (ascii ''RND'') @ ascii ''|'' @ fmt_name (player_a board)
       @ ascii ''|'' @ fmt_name (player_b board) @ ascii ''|''"

definition header :: "Board \<Rightarrow> str" where
  "header board = header_line board @ [10]"

text \<open>One element of \<^verbatim>\<open>body_lines\<close>: round number \<open>i\<close> (from 1) and its round.\<close>

definition body_line :: "Board \<Rightarrow> nat \<times> Round \<Rightarrow> str" where
  "body_line board ir =
     ascii ''|'' @ fmt_rnd (COL_RND board) (py_str (int (fst ir))) @ ascii ''|''
       @ fmt_score_val (COL_PLY board) (zero_as_dash board) (score_a (snd ir)) @ ascii ''|''
       @ fmt_score_val (COL_PLY board) (zero_as_dash board) (score_b (snd ir)) @ ascii ''|''"

definition body_lines :: "Board \<Rightarrow> str list" where
  "body_lines board =
     map (body_line board) (zip [1 ..< Suc (length (rounds board))] (rounds board))"

definition body :: "Board \<Rightarrow> str" where
  "body board = (if body_lines board \<noteq> [] then join [10] (body_lines board) @ [10] else [])"

text \<open>The two lines of the footer: totals and differences. \<^verbatim>\<open>+diff\<close> is \<open>diff\<close>.\<close>

definition totals_line :: "Board \<Rightarrow> str" where
  "totals_line board =
     (let (ta, tb) = totals board in
      ascii ''|'' @ fmt_rnd (COL_RND board) [931] @ ascii ''|''
        @ fmt_score_val (COL_PLY board) (zero_as_dash board) ta @ ascii ''|''
        @ fmt_score_val (COL_PLY board) (zero_as_dash board) tb @ ascii ''|'')"

definition diff_line :: "Board \<Rightarrow> str" where
  "diff_line board =
     (let (ta, tb) = totals board; diff = ta - tb in
      ascii ''|'' @ fmt_rnd (COL_RND board) [916] @ ascii ''|''
        @ fmt_score_signed (COL_PLY board) diff @ ascii ''|''
        @ fmt_score_signed (COL_PLY board) (- diff) @ ascii ''|'')"

definition footer :: "Board \<Rightarrow> str" where
  "footer board = totals_line board @ [10] @ diff_line board @ [10]"

definition table :: "Board \<Rightarrow> str" where
  "table board =
     hline (COL_RND board) (COL_PLY board) @ header board @ hline (COL_RND board) (COL_PLY board)
       @ body board @ hline (COL_RND board) (COL_PLY board) @ footer board
       @ hline (COL_RND board) (COL_PLY board)"

definition title_line :: "Board \<Rightarrow> str" where
  "title_line board =
     [12304] @ title board @ [12305] @ ascii '' '' @ player_a board @ ascii '' vs '' @ player_b board"

text \<open>\<^verbatim>\<open>render\<close> raises \<^verbatim>\<open>ValueError\<close> when a format width is negative: the header formats
  the RND cell with width \<^verbatim>\<open>COL_RND-1\<close> and the footer a score cell with width
  \<^verbatim>\<open>COL_PLY-1\<close> on every call.\<close>

definition render :: "Board \<Rightarrow> error + str" where
  "render board =
     (if COL_RND board - 1 < 0 \<or> COL_PLY board - 1 < 0 then Inl ValueError
      else Inr (ascii ''**'' @ title_line board @ ascii ''**'' @ [10] @ ascii ''```'' @ [10]
                  @ table board @ ascii ''```''))"


section \<open>Persistence\<close>

text \<open>The values \<^verbatim>\<open>json.load\<close> returns and \<^verbatim>\<open>json.dump\<close> writes. An object is its list of
  members in order; a lookup takes the first member with the key. The file is the
  mapping from a context key to the stored object: \<^verbatim>\<open>_load_all\<close> reads all of it and
  \<^verbatim>\<open>_save_all\<close> replaces all of it, so the model passes the mapping itself.\<close>

datatype json = JNull | JBool bool | JInt int | JStr str | JList "json list"
  | JObj "(str \<times> json) list"

type_synonym store = "str \<rightharpoonup> json"

text \<open>\<^verbatim>\<open>d.get(key, default)\<close>.\<close>

definition dict_get :: "(str \<times> json) list \<Rightarrow> string \<Rightarrow> json \<Rightarrow> json" where
  "dict_get kvs key dflt = (case map_of kvs (ascii key) of None \<Rightarrow> dflt | Some v \<Rightarrow> v)"

text \<open>\<^verbatim>\<open>asdict(r)\<close> for a round and \<^verbatim>\<open>Board.to_dict\<close>: the fields in the order of the
  dataclass.\<close>

definition round_dict :: "Round \<Rightarrow> json" where
  "round_dict r = JObj [(ascii ''a'', JInt (score_a r)), (ascii ''b'', JInt (score_b r))]"

definition to_dict :: "Board \<Rightarrow> json" where
  "to_dict board = JObj
     [(ascii ''title'', JStr (title board)),
      (ascii ''player_a'', JStr (player_a board)),
      (ascii ''player_b'', JStr (player_b board)),
      (ascii ''rounds'', JList (map round_dict (rounds board))),
      (ascii ''message_id'', (case message_id board of None \<Rightarrow> JNull | Some i \<Rightarrow> JInt i)),
      (ascii ''COL_RND'', JInt (COL_RND board)),
      (ascii ''COL_PLY'', JInt (COL_PLY board)),
      (ascii ''zero_as_dash'', JBool (zero_as_dash board))]"

text \<open>\<^verbatim>\<open>Round(**r)\<close>: a \<^verbatim>\<open>TypeError\<close> unless \<open>r\<close> is an object whose keys are \<^verbatim>\<open>a\<close> and
  \<^verbatim>\<open>b\<close>, both present.\<close>

definition round_from :: "json \<Rightarrow> error + Round" where
  "round_from r =
     (case r of
        JObj kvs \<Rightarrow>
          if \<not> list_all (\<lambda>k. k = ascii ''a'' \<or> k = ascii ''b'') (map fst kvs) then Inl TypeError
          else (case map_of kvs (ascii ''a'') of
                  None \<Rightarrow> Inl TypeError
                | Some va \<Rightarrow>
                   (case map_of kvs (ascii ''b'') of
                      None \<Rightarrow> Inl TypeError
                    | Some vb \<Rightarrow>
                       (case va of
                          JInt x \<Rightarrow> (case vb of JInt y \<Rightarrow> Inr \<lparr>score_a = x, score_b = y\<rparr>
                                               | _ \<Rightarrow> Inl IllTyped)
                        | _ \<Rightarrow> Inl IllTyped)))
      | _ \<Rightarrow> Inl TypeError)"

fun rounds_from :: "json list \<Rightarrow> error + Round list" where
  "rounds_from [] = Inr []"
| "rounds_from (r # rs) =
     (case round_from r of
        Inl e \<Rightarrow> Inl e
      | Inr x \<Rightarrow> (case rounds_from rs of Inl e \<Rightarrow> Inl e | Inr xs \<Rightarrow> Inr (x # xs)))"

text \<open>The comprehension \<^verbatim>\<open>[Round(**r) for r in v]\<close> over the value stored under
  \<^verbatim>\<open>rounds\<close>: a list is read element by element; an empty object or string has nothing to
  iterate over; anything else raises \<^verbatim>\<open>TypeError\<close> (its elements are no mappings, or it
  is not iterable).\<close>

definition rounds_of :: "json \<Rightarrow> error + Round list" where
  "rounds_of v =
     (case v of
        JList rs \<Rightarrow> rounds_from rs
      | JObj kvs \<Rightarrow> if kvs = [] then Inr [] else Inl TypeError
      | JStr s \<Rightarrow> if s = [] then Inr [] else Inl TypeError
      | _ \<Rightarrow> Inl TypeError)"

definition as_str :: "json \<Rightarrow> error + str" where
  "as_str v = (case v of JStr s \<Rightarrow> Inr s | _ \<Rightarrow> Inl IllTyped)"

definition as_int :: "json \<Rightarrow> error + int" where
  "as_int v = (case v of JInt i \<Rightarrow> Inr i | _ \<Rightarrow> Inl IllTyped)"

definition as_bool :: "json \<Rightarrow> error + bool" where
  "as_bool v = (case v of JBool t \<Rightarrow> Inr t | _ \<Rightarrow> Inl IllTyped)"

definition as_opt_int :: "json \<Rightarrow> error + int option" where
  "as_opt_int v = (case v of JNull \<Rightarrow> Inr None | JInt i \<Rightarrow> Inr (Some i) | _ \<Rightarrow> Inl IllTyped)"

text \<open>\<^verbatim>\<open>Board.from_dict\<close>. A stored value that is no object has no \<^verbatim>\<open>get\<close>
  (\<^verbatim>\<open>AttributeError\<close>). The rounds are built first; the constructor call itself cannot
  raise.\<close>

definition from_dict :: "json \<Rightarrow> error + Board" where
  "from_dict d =
     (case d of
        JObj kvs \<Rightarrow>
         (case rounds_of (dict_get kvs ''rounds'' (JList [])) of Inl e \<Rightarrow> Inl e | Inr rs \<Rightarrow>
          (case as_str (dict_get kvs ''title'' (JStr (ascii ''Scoreboard''))) of Inl e \<Rightarrow> Inl e | Inr t \<Rightarrow>
          (case as_str (dict_get kvs ''player_a'' (JStr (ascii ''PlayerA''))) of Inl e \<Rightarrow> Inl e | Inr pa \<Rightarrow>
          (case as_str (dict_get kvs ''player_b'' (JStr (ascii ''PlayerB''))) of Inl e \<Rightarrow> Inl e | Inr pb \<Rightarrow>
          (case as_opt_int (dict_get kvs ''message_id'' JNull) of Inl e \<Rightarrow> Inl e | Inr mid \<Rightarrow>
          (case as_int (dict_get kvs ''COL_RND'' (JInt 5)) of Inl e \<Rightarrow> Inl e | Inr cr \<Rightarrow>
          (case as_int (dict_get kvs ''COL_PLY'' (JInt 10)) of Inl e \<Rightarrow> Inl e | Inr cp \<Rightarrow>
          (case as_bool (dict_get kvs ''zero_as_dash'' (JBool True)) of Inl e \<Rightarrow> Inl e | Inr zd \<Rightarrow>
             Inr \<lparr>title = t, player_a = pa, player_b = pb, rounds = rs, message_id = mid,
                  COL_RND = cr, COL_PLY = cp, zero_as_dash = zd\<rparr>))))))))
      | _ \<Rightarrow> Inl AttributeError)"

text \<open>\<^verbatim>\<open>get_board\<close> and \<^verbatim>\<open>save_board\<close>, for the key \<open>k\<close> that \<^verbatim>\<open>_key(inter)\<close> gives.\<close>

definition get_board :: "store \<Rightarrow> str \<Rightarrow> error + Board option" where
  "get_board st k =
     (case st k of
        None \<Rightarrow> Inr None
      | Some d \<Rightarrow> (case from_dict d of Inl e \<Rightarrow> Inl e | Inr board \<Rightarrow> Inr (Some board)))"

definition save_board :: "store \<Rightarrow> str \<Rightarrow> Board \<Rightarrow> store" where
  "save_board st k board = st(k \<mapsto> to_dict board)"


section \<open>Commands\<close>

text \<open>What the chat service answers when a command publishes the board. For the block
  \<^verbatim>\<open>try: fetch_message; msg.edit  except NotFound: channel.send\<close>: \<open>Edited\<close> when the
  stored message is found and edited; \<open>NotFound r\<close> when it is gone and \<^verbatim>\<open>channel.send\<close>
  answers \<open>r\<close>; \<open>Failed\<close> for any other exception of the service. \<open>Sent mid\<close> is a new
  message with id \<open>mid\<close>.\<close>

datatype send_result = Sent int | SendFailed

datatype host = Edited | NotFound send_result | Failed

text \<open>The followup messages, by what they say and the values they interpolate:
  \<^item> \<open>BadName\<close>: names must be ASCII only (\<^verbatim>\<open>board_start\<close>);
  \<^item> \<open>AlreadyExists\<close>: a board already exists; \<open>Created\<close>: the board was created;
  \<^item> \<open>NeedStart\<close>: create a board with \<^verbatim>\<open>/board_start\<close> first (\<^verbatim>\<open>board_add\<close>);
  \<^item> \<open>Added n x y\<close>: added round \<open>n\<close> with \<open>A=x\<close>, \<open>B=y\<close>;
  \<^item> \<open>NoBoard\<close>: this channel has no board;
  \<^item> \<open>NoSuchRound no n\<close>: round \<open>no\<close> does not exist, the current maximum round is \<open>n\<close>;
  \<^item> \<open>EditedRound no x y\<close>: round \<open>no\<close> was corrected, now \<open>A=x\<close>, \<open>B=y\<close>;
  \<^item> \<open>BadNameA\<close>, \<open>BadNameB\<close>: that player name must be ASCII only; \<open>Renamed\<close>: updated;
  \<^item> \<open>BadStyle\<close>: the style must be \<^verbatim>\<open>dash\<close> or \<^verbatim>\<open>zero\<close>; \<open>StyleSet z\<close>: zeros are now
    shown as \<open>-\<close> (\<open>z\<close> true) or \<open>0\<close>.\<close>

datatype reply = BadName | AlreadyExists | Created | NeedStart | Added nat int int | NoBoard
  | NoSuchRound int nat | EditedRound int int int | BadNameA | BadNameB | Renamed | BadStyle
  | StyleSet bool

text \<open>What a command that returns leaves behind: its followup message, the file, whether
  \<^verbatim>\<open>save_board\<close> ran, and the text it published to the channel, if any. A command that
  raises (\<open>Inl\<close>) has not reached \<^verbatim>\<open>save_board\<close>: the file is as it was.\<close>

record outcome =
  reply :: reply
  data :: store
  saved :: bool
  posted :: "str option"

text \<open>An early \<^verbatim>\<open>return\<close> after a followup message: nothing published, nothing saved.\<close>

definition reject :: "store \<Rightarrow> reply \<Rightarrow> error + outcome" where
  "reject st r = Inr \<lparr>reply = r, data = st, saved = False, posted = None\<rparr>"

text \<open>The end of a command: \<^verbatim>\<open>save_board(inter, board)\<close>, then the followup message.\<close>

definition commit :: "store \<Rightarrow> str \<Rightarrow> Board \<Rightarrow> str \<Rightarrow> reply \<Rightarrow> error + outcome" where
  "commit st k board text r =
     Inr \<lparr>reply = r, data = save_board st k board, saved = True, posted = Some text\<rparr>"

text \<open>The publishing block shared by \<^verbatim>\<open>board_add\<close>, \<^verbatim>\<open>board_edit\<close>, \<^verbatim>\<open>board_rename\<close> and
  \<^verbatim>\<open>board_zero_style\<close>: the board comes back with the new message id when the message
  was sent anew. An exception of \<^verbatim>\<open>render\<close> or of the service leaves the command.\<close>

definition publish :: "host \<Rightarrow> Board \<Rightarrow> error + Board \<times> str" where
  "publish h board =
     (case render board of
        Inl e \<Rightarrow> Inl e
      | Inr text \<Rightarrow>
         (case h of
            Edited \<Rightarrow> Inr (board, text)
          | NotFound (Sent mid) \<Rightarrow> Inr (board\<lparr>message_id := Some mid\<rparr>, text)
          | NotFound SendFailed \<Rightarrow> Inl HTTPException
          | Failed \<Rightarrow> Inl HTTPException))"

text \<open>Truth value of an \<^verbatim>\<open>Optional[int]\<close>, as in \<^verbatim>\<open>if board.message_id\<close>: false for
  \<^verbatim>\<open>None\<close> and for 0. An \<^verbatim>\<open>Optional[str]\<close> is false for \<^verbatim>\<open>None\<close> and for the empty
  string; \<^verbatim>\<open>title or default\<close> and \<^verbatim>\<open>if title:\<close> are written out where they stand.\<close>

definition truthy_id :: "int option \<Rightarrow> bool" where
  "truthy_id m = (case m of None \<Rightarrow> False | Some i \<Rightarrow> i \<noteq> 0)"

text \<open>The default title of \<^verbatim>\<open>board_start\<close>, five code points.\<close>

definition default_title :: str where
  "default_title = [25126, 32318, 12508, 12540, 12489]"

definition board_start ::
    "send_result \<Rightarrow> store \<Rightarrow> str \<Rightarrow> str \<Rightarrow> str \<Rightarrow> str option \<Rightarrow> error + outcome" where
  "board_start h st k pa pb ttl =
     (case validate_name (Some pa) of
        None \<Rightarrow> reject st BadName
      | Some va \<Rightarrow>
         (case validate_name (Some pb) of
            None \<Rightarrow> reject st BadName
          | Some vb \<Rightarrow>
             (case get_board st k of
                Inl e \<Rightarrow> Inl e
              | Inr existing \<Rightarrow>
                 if (case existing of
                       None \<Rightarrow> False
                     | Some ex \<Rightarrow> rounds ex \<noteq> [] \<or> truthy_id (message_id ex))
                 then reject st AlreadyExists
                 else
                   let board = \<lparr>title = (case ttl of None \<Rightarrow> default_title
                                          | Some t \<Rightarrow> if t = [] then default_title else t),
                                player_a = va, player_b = vb, rounds = [], message_id = None,
                                COL_RND = 5, COL_PLY = 10, zero_as_dash = True\<rparr>
                   in (case render board of
                         Inl e \<Rightarrow> Inl e
                       | Inr text \<Rightarrow>
                          (case h of
                             SendFailed \<Rightarrow> Inl HTTPException
                           | Sent mid \<Rightarrow>
                              commit st k (board\<lparr>message_id := Some mid\<rparr>) text Created)))))"

definition board_add :: "host \<Rightarrow> store \<Rightarrow> str \<Rightarrow> int \<Rightarrow> int \<Rightarrow> error + outcome" where
  "board_add h st k x y =
     (case get_board st k of
        Inl e \<Rightarrow> Inl e
      | Inr None \<Rightarrow> reject st NeedStart
      | Inr (Some board) \<Rightarrow>
         if \<not> truthy_id (message_id board) then reject st NeedStart
         else
           let board1 = board\<lparr>rounds := rounds board @ [\<lparr>score_a = x, score_b = y\<rparr>]\<rparr>
           in (case publish h board1 of
                 Inl e \<Rightarrow> Inl e
               | Inr (board2, text) \<Rightarrow>
                  commit st k board2 text (Added (length (rounds board2)) x y)))"

definition board_edit ::
    "host \<Rightarrow> store \<Rightarrow> str \<Rightarrow> int \<Rightarrow> int option \<Rightarrow> int option \<Rightarrow> error + outcome" where
  "board_edit h st k round_no x y =
     (case get_board st k of
        Inl e \<Rightarrow> Inl e
      | Inr None \<Rightarrow> reject st NoBoard
      | Inr (Some board) \<Rightarrow>
         if rounds board = [] then reject st NoBoard
         else if round_no < 1 \<or> round_no > int (length (rounds board))
         then reject st (NoSuchRound round_no (length (rounds board)))
         else
           let i = nat (round_no - 1);
               r = rounds board ! i;
               r1 = (case x of None \<Rightarrow> r | Some v \<Rightarrow> r\<lparr>score_a := v\<rparr>);
               r2 = (case y of None \<Rightarrow> r1 | Some v \<Rightarrow> r1\<lparr>score_b := v\<rparr>);
               board1 = board\<lparr>rounds := (rounds board)[i := r2]\<rparr>
           in (case publish h board1 of
                 Inl e \<Rightarrow> Inl e
               | Inr (board2, text) \<Rightarrow>
                  commit st k board2 text (EditedRound round_no (score_a r2) (score_b r2))))"

text \<open>The blocks \<^verbatim>\<open>if player_a is not None: ...\<close> and \<^verbatim>\<open>if player_b is not None: ...\<close> of
  \<^verbatim>\<open>board_rename\<close>: \<open>Inl\<close> is the early return with its message, \<open>Inr\<close> the board in
  memory after the block.\<close>

definition set_player_a :: "str option \<Rightarrow> Board \<Rightarrow> reply + Board" where
  "set_player_a pa board =
     (case pa of
        None \<Rightarrow> Inr board
      | Some n \<Rightarrow> (case validate_name (Some n) of
                     None \<Rightarrow> Inl BadNameA
                   | Some va \<Rightarrow> Inr (board\<lparr>player_a := va\<rparr>)))"

definition set_player_b :: "str option \<Rightarrow> Board \<Rightarrow> reply + Board" where
  "set_player_b pb board =
     (case pb of
        None \<Rightarrow> Inr board
      | Some n \<Rightarrow> (case validate_name (Some n) of
                     None \<Rightarrow> Inl BadNameB
                   | Some vb \<Rightarrow> Inr (board\<lparr>player_b := vb\<rparr>)))"

definition board_rename ::
    "host \<Rightarrow> store \<Rightarrow> str \<Rightarrow> str option \<Rightarrow> str option \<Rightarrow> str option \<Rightarrow> error + outcome" where
  "board_rename h st k pa pb ttl =
     (case get_board st k of
        Inl e \<Rightarrow> Inl e
      | Inr None \<Rightarrow> reject st NoBoard
      | Inr (Some board) \<Rightarrow>
         (case set_player_a pa board of
            Inl r \<Rightarrow> reject st r
          | Inr board1 \<Rightarrow>
             (case set_player_b pb board1 of
                Inl r \<Rightarrow> reject st r
              | Inr board2 \<Rightarrow>
                 let board3 = (case ttl of
                                 None \<Rightarrow> board2
                               | Some t \<Rightarrow> if t \<noteq> [] then board2\<lparr>title := t\<rparr> else board2)
                 in (case publish h board3 of
                       Inl e \<Rightarrow> Inl e
                     | Inr (board4, text) \<Rightarrow> commit st k board4 text Renamed))))"

text \<open>\<^verbatim>\<open>s.lower()\<close>. The letters \<open>A\<close> to \<open>Z\<close> go to \<open>a\<close> to \<open>z\<close> and the other ASCII
  code points stay. The lower-case form of a code point from 128 on comes from the
  Unicode tables of the interpreter, which are no part of this program: \<open>ul s i\<close> stands
  for the lower-case form of the code point at position \<open>i\<close> of \<open>s\<close> (one code point
  or several; the position matters for the capital sigma).\<close>

definition lower :: "(str \<Rightarrow> nat \<Rightarrow> str) \<Rightarrow> str \<Rightarrow> str" where
  "lower ul s =
     concat (map (\<lambda>i. let c = s ! i in
                        if 65 \<le> c \<and> c \<le> 90 then [c + 32]
                        else if c < 128 then [c]
                        else ul s i)
                 [0 ..< length s])"

definition board_zero_style ::
    "(str \<Rightarrow> nat \<Rightarrow> str) \<Rightarrow> host \<Rightarrow> store \<Rightarrow> str \<Rightarrow> str \<Rightarrow> error + outcome" where
  "board_zero_style ul h st k style =
     (case get_board st k of
        Inl e \<Rightarrow> Inl e
      | Inr None \<Rightarrow> reject st NoBoard
      | Inr (Some board) \<Rightarrow>
         (case (if lower ul style = ascii ''dash'' then Some True
                else if lower ul style = ascii ''zero'' then Some False
                else None) of
            None \<Rightarrow> reject st BadStyle
          | Some z \<Rightarrow>
             (case publish h (board\<lparr>zero_as_dash := z\<rparr>) of
                Inl e \<Rightarrow> Inl e
              | Inr (board1, text) \<Rightarrow> commit st k board1 text (StyleSet (zero_as_dash board1)))))"


section \<open>Notions used to state the properties\<close>


text \<open>The board of the scenario \<^verbatim>\<open>start("Reo", "Haruna", "Finals")\<close>, \<^verbatim>\<open>add(3, 1)\<close>,
  \<^verbatim>\<open>add(0, 2)\<close>, published as message 1: both totals are 3.\<close>

definition scenario_A :: Board where
  "scenario_A = \<lparr>title = ascii ''Finals'', player_a = ascii ''Reo'', player_b = ascii ''Haruna'',
     rounds = [\<lparr>score_a = 3, score_b = 1\<rparr>, \<lparr>score_a = 0, score_b = 2\<rparr>], message_id = Some 1,
     COL_RND = 5, COL_PLY = 10, zero_as_dash = True\<rparr>"

text \<open>A board at the limits: no rounds yet, names of eight characters, a long title, the
  zero style switched.\<close>

definition fresh_board :: Board where
  "fresh_board = \<lparr>title = ascii ''Grand final of the winter league, best of many'',
     player_a = ascii ''Player01'', player_b = ascii ''Player02'', rounds = [],
     message_id = None, COL_RND = 5, COL_PLY = 10, zero_as_dash = False\<rparr>"

text \<open>A board with negative scores.\<close>

definition minus_board :: Board where
  "minus_board = \<lparr>title = ascii ''Penalties'', player_a = ascii ''Reo'', player_b = ascii ''Haruna'',
     rounds = [\<lparr>score_a = - 40, score_b = 7\<rparr>, \<lparr>score_a = 0, score_b = - 123456\<rparr>],
     message_id = Some 1357924680, COL_RND = 5, COL_PLY = 10, zero_as_dash = True\<rparr>"





text \<open>The service publishes the board: the stored message is edited, or it is gone and a
  new one is sent. \<open>republished\<close> is the board in memory afterwards, with the id of the
  new message in the second case.\<close>

definition delivers :: "host \<Rightarrow> bool" where
  "delivers h = (case h of Edited \<Rightarrow> True | NotFound (Sent mid) \<Rightarrow> True | _ \<Rightarrow> False)"

definition republished :: "host \<Rightarrow> Board \<Rightarrow> Board" where
  "republished h board =
     (case h of NotFound (Sent mid) \<Rightarrow> board\<lparr>message_id := Some mid\<rparr> | _ \<Rightarrow> board)"

text \<open>The round after \<^verbatim>\<open>board_edit\<close>: each supplied score overwritten, the other kept.\<close>

definition edited_round :: "Round \<Rightarrow> int option \<Rightarrow> int option \<Rightarrow> Round" where
  "edited_round r x y =
     \<lparr>score_a = (case x of None \<Rightarrow> score_a r | Some v \<Rightarrow> v),
      score_b = (case y of None \<Rightarrow> score_b r | Some v \<Rightarrow> v)\<rparr>"

text \<open>\<open>s\<close> is a capitalization of the lower-case ASCII word \<open>w\<close>: letter by letter it is
  the letter of \<open>w\<close> or its capital, 32 code points below.\<close>

definition capitalization_of :: "string \<Rightarrow> str \<Rightarrow> bool" where
  "capitalization_of w s = list_all2 (\<lambda>c l. c = l \<or> c + 32 = l) s (ascii w)"

text \<open>A lower-case table for the examples: every code point from 128 on stays as it is.\<close>

definition keep_case :: "str \<Rightarrow> nat \<Rightarrow> str" where
  "keep_case s i = [s ! i]"

text \<open>Example files: the key of channel 2 of server 1, with the board of scenario A, and
  with a stored board that has neither rounds nor a message id.\<close>

definition key_A :: str where
  "key_A = ascii ''1:2:0''"

definition store_A :: store where
  "store_A = [key_A \<mapsto> to_dict scenario_A]"

definition store_fresh :: store where
  "store_fresh = [key_A \<mapsto> to_dict fresh_board]"

text \<open>The name of scenario D, three code points outside ASCII.\<close>

definition nihongo :: str where
  "nihongo = [26085, 26412, 35486]"

section \<open>Lemmas on the Python values\<close>

lemma replicate_numeral: "replicate (numeral n) x = x # replicate (pred_numeral n) x"
  by (simp add: numeral_eq_Suc)

lemma length_ascii [simp]: "length (ascii s) = length s"
  by (simp add: ascii_def)



lemma digits_0: "digits 0 = [48]"
  by (simp add: digits.simps)

lemma fmt_plus_d_0: "fmt_plus_d 0 = ascii ''+0''"
  by (simp add: fmt_plus_d_def digits_0 ascii_def)


section \<open>The name validator\<close>

text \<open>
  C3. The validator answers \<open>None\<close> for an absent name and for a name with a code point
  outside ASCII, whatever its length, and the first eight characters of any other name (a
  longer ASCII name is cut, not refused). As a function of the logic it has one value for
  every input.
\<close>

theorem validate_name_spec:
  "validate_name None = None
   \<and> (\<forall>n. (\<exists>c\<in>set n. 128 \<le> c) \<longrightarrow> validate_name (Some n) = None)
   \<and> (\<forall>n. (\<forall>c\<in>set n. c < 128) \<longrightarrow> validate_name (Some n) = Some (take 8 n))"
  by (auto simp: validate_name_def is_ascii_def list_all_iff)

theorem validate_name_spec_witness:
  "\<not> is_ascii [26085, 26412, 35486] \<and> validate_name (Some [26085, 26412, 35486]) = None
   \<and> is_ascii (ascii ''Player0123'')
   \<and> validate_name (Some (ascii ''Player0123'')) = Some (ascii ''Player01'')"
proof -
  have h1: "\<exists>c\<in>set [26085, 26412, 35486 :: nat]. 128 \<le> c" by simp
  have h2: "\<forall>c\<in>set (ascii ''Player0123''). c < 128" by (simp add: ascii_def)
  from validate_name_spec h1 have c1: "validate_name (Some [26085, 26412, 35486]) = None"
    by blast
  from validate_name_spec h2
  have c2: "validate_name (Some (ascii ''Player0123'')) = Some (take 8 (ascii ''Player0123''))"
    by blast
  show ?thesis using c1 c2 h1 h2 by (simp add: is_ascii_def list_all_iff ascii_def)
qed

section \<open>The renderer\<close>









text \<open>With equal totals both cells of the difference row read \<open>+0\<close>.\<close>

lemma diff_line_tie:
  assumes "fst (totals board) = snd (totals board)" and "COL_PLY board = 10"
  shows "diff_line board =
           ascii ''|'' @ fmt_rnd (COL_RND board) [916] @ ascii ''|       +0 |       +0 |''"
  using assms
  by (simp add: diff_line_def split_beta fmt_score_signed_def fmt_right_def rjust_def
      fmt_plus_d_0 ascii_def replicate_numeral)

text \<open>
  C1. With equal totals the difference is 0 and the difference row is formatted from
  \<open>diff\<close> and \<open>- diff\<close>, both the integer 0: each cell is the text \<open>+0\<close> right-justified
  in nine characters and followed by one space. The right cell does not read \<open>-0\<close>.
  Evaluated on the board of scenario A.
\<close>

theorem diff_line_scenario_A:
  "fst (totals scenario_A) = snd (totals scenario_A)
   \<and> diff_line scenario_A = ascii ''|   '' @ [916] @ ascii '' |       +0 |       +0 |''"
  by (simp add: scenario_A_def totals_def diff_line_def fmt_rnd_def fmt_score_signed_def
      fmt_right_def rjust_def fmt_plus_d_0 ascii_def replicate_numeral)




























section \<open>Persistence round trip\<close>

lemma rounds_from_round_dict: "rounds_from (map round_dict rs) = Inr rs"
  by (induction rs) (simp_all add: round_dict_def round_from_def ascii_def)

lemma from_dict_inverse: "from_dict (to_dict board) = Inr board"
  by (simp add: from_dict_def to_dict_def dict_get_def rounds_of_def rounds_from_round_dict
      as_str_def as_int_def as_bool_def as_opt_int_def ascii_def split: option.split)

lemma get_board_stored: "st k = Some (to_dict board) \<Longrightarrow> get_board st k = Inr (Some board)"
  by (simp add: get_board_def from_dict_inverse)

text \<open>
  C8. Reading back what \<open>to_dict\<close> wrote gives the board itself, in every field: title,
  both names, the rounds in order, the message id, the two column widths and the zero
  style; and \<open>get_board\<close> after \<open>save_board\<close> under the same key gives the saved board.
  It holds for every board, so also with no rounds, negative scores, names of eight
  characters and long titles.
\<close>

theorem from_dict_to_dict:
  "from_dict (to_dict board) = Inr board
   \<and> get_board (save_board st k board) k = Inr (Some board)"
proof -
  have "from_dict (to_dict board) = Inr board"
    by (simp add: from_dict_def to_dict_def dict_get_def rounds_of_def rounds_from_round_dict
        as_str_def as_int_def as_bool_def as_opt_int_def ascii_def split: option.split)
  then show ?thesis by (simp add: get_board_def save_board_def)
qed

theorem from_dict_to_dict_witness:
  "from_dict (to_dict fresh_board) = Inr fresh_board
   \<and> from_dict (to_dict minus_board) = Inr minus_board
   \<and> get_board (save_board store_A key_A minus_board) key_A = Inr (Some minus_board)"
  using from_dict_to_dict [of fresh_board store_A key_A]
    from_dict_to_dict [of minus_board store_A key_A]
  by blast

section \<open>Commands\<close>

text \<open>\<open>render\<close> returns a text exactly for column widths of at least 1.\<close>

lemma render_widths: "render board = Inr text \<Longrightarrow> 1 \<le> COL_RND board \<and> 1 \<le> COL_PLY board"
  by (simp add: render_def split: if_splits)

lemma render_total: "1 \<le> COL_RND board \<Longrightarrow> 1 \<le> COL_PLY board \<Longrightarrow> \<exists>text. render board = Inr text"
  by (simp add: render_def)

lemma publish_delivers:
  "delivers h \<Longrightarrow> render board = Inr text \<Longrightarrow> publish h board = Inr (republished h board, text)"
  by (auto simp: delivers_def republished_def publish_def split: host.splits send_result.splits)

lemma rounds_republished [simp]: "rounds (republished h board) = rounds board"
  by (simp add: republished_def split: host.splits send_result.splits)

text \<open>
  C2 (amended). A key whose board has a message id (not null, not 0): when the service
  publishes, \<open>board_add\<close> saves the board with the round appended as its last round.
  The command answers "create a board first" exactly when the key has no board or its
  board has no message id, and then the file is unchanged and nothing is saved or
  published.
\<close>

theorem board_add_spec:
  "(get_board st k = Inr (Some board) \<and> truthy_id (message_id board) \<and> delivers h
      \<and> render (board\<lparr>rounds := rounds board @ [\<lparr>score_a = x, score_b = y\<rparr>]\<rparr>) = Inr text
    \<longrightarrow> board_add h st k x y =
          Inr \<lparr>reply = Added (Suc (length (rounds board))) x y,
               data = st(k \<mapsto> to_dict (republished h
                        (board\<lparr>rounds := rounds board @ [\<lparr>score_a = x, score_b = y\<rparr>]\<rparr>))),
               saved = True, posted = Some text\<rparr>)
   \<and> ((\<exists>out. board_add h st k x y = Inr out \<and> reply out = NeedStart)
        \<longleftrightarrow> (get_board st k = Inr None
             \<or> (\<exists>b. get_board st k = Inr (Some b) \<and> \<not> truthy_id (message_id b))))
   \<and> (\<forall>out. board_add h st k x y = Inr out \<and> reply out = NeedStart
          \<longrightarrow> data out = st \<and> \<not> saved out \<and> posted out = None)"
proof -
  have ok: "board_add h st k x y =
          Inr \<lparr>reply = Added (Suc (length (rounds board))) x y,
               data = st(k \<mapsto> to_dict (republished h
                        (board\<lparr>rounds := rounds board @ [\<lparr>score_a = x, score_b = y\<rparr>]\<rparr>))),
               saved = True, posted = Some text\<rparr>"
    if "get_board st k = Inr (Some board)" "truthy_id (message_id board)" "delivers h"
      "render (board\<lparr>rounds := rounds board @ [\<lparr>score_a = x, score_b = y\<rparr>]\<rparr>) = Inr text"
    using that by (simp add: board_add_def publish_delivers commit_def save_board_def)
  have iff: "(\<exists>out. board_add h st k x y = Inr out \<and> reply out = NeedStart)
        \<longleftrightarrow> (get_board st k = Inr None
             \<or> (\<exists>b. get_board st k = Inr (Some b) \<and> \<not> truthy_id (message_id b)))"
    by (auto simp: board_add_def reject_def commit_def Let_def
        split: sum.splits option.splits prod.splits)
  have unchanged: "data out = st \<and> \<not> saved out \<and> posted out = None"
    if "board_add h st k x y = Inr out \<and> reply out = NeedStart" for out
    using that by (auto simp: board_add_def reject_def commit_def Let_def
        split: sum.splits option.splits prod.splits if_splits)
  from ok iff unchanged show ?thesis by blast
qed

lemma get_board_store_A: "get_board store_A key_A = Inr (Some scenario_A)"
  by (rule get_board_stored) (simp add: store_A_def)

lemma get_board_store_fresh: "get_board store_fresh key_A = Inr (Some fresh_board)"
  by (rule get_board_stored) (simp add: store_fresh_def)

lemma truthy_scenario_A: "truthy_id (message_id scenario_A)"
  by (simp add: truthy_id_def scenario_A_def)

lemma not_truthy_fresh: "\<not> truthy_id (message_id fresh_board)"
  by (simp add: truthy_id_def fresh_board_def)

theorem board_add_spec_witness:
  "\<exists>text. render (scenario_A\<lparr>rounds := rounds scenario_A @ [\<lparr>score_a = 5, score_b = 0\<rparr>]\<rparr>) = Inr text
     \<and> board_add (NotFound (Sent 77)) store_A key_A 5 0 =
          Inr \<lparr>reply = Added 3 5 0,
               data = store_A(key_A \<mapsto> to_dict
                 (scenario_A\<lparr>rounds := rounds scenario_A @ [\<lparr>score_a = 5, score_b = 0\<rparr>],
                              message_id := Some 77\<rparr>)),
               saved = True, posted = Some text\<rparr>"
proof -
  obtain t
    where r: "render (scenario_A\<lparr>rounds := rounds scenario_A @ [\<lparr>score_a = 5, score_b = 0\<rparr>]\<rparr>)
                = Inr t"
    using render_total [of "scenario_A\<lparr>rounds := rounds scenario_A @ [\<lparr>score_a = 5, score_b = 0\<rparr>]\<rparr>"]
    by (auto simp: scenario_A_def)
  have d: "delivers (NotFound (Sent 77))" by (simp add: delivers_def)
  from board_add_spec [of store_A key_A scenario_A "NotFound (Sent 77)" 5 0 t]
    get_board_store_A truthy_scenario_A d r
  have "board_add (NotFound (Sent 77)) store_A key_A 5 0 =
          Inr \<lparr>reply = Added (Suc (length (rounds scenario_A))) 5 0,
               data = store_A(key_A \<mapsto> to_dict (republished (NotFound (Sent 77))
                  (scenario_A\<lparr>rounds := rounds scenario_A @ [\<lparr>score_a = 5, score_b = 0\<rparr>]\<rparr>))),
               saved = True, posted = Some t\<rparr>"
    by blast
  with r show ?thesis by (auto simp: republished_def scenario_A_def)
qed

text \<open>
  A stored board without a message id: the key has a board, and \<open>board_add\<close> answers as
  for a key without one and appends nothing.
\<close>

theorem board_add_active_counterexample:
  "get_board store_fresh key_A = Inr (Some fresh_board)
   \<and> board_add Edited store_fresh key_A 3 1 =
       Inr \<lparr>reply = NeedStart, data = store_fresh, saved = False, posted = None\<rparr>"
  by (simp add: get_board_store_fresh board_add_def not_truthy_fresh reject_def)

text \<open>
  C4. When \<open>board_rename\<close> is given a name that fails validation (as player A, or as
  player B after a valid player A), it returns without saving: the file is as before,
  nothing is published, and for a key with a board the answer names the refused field.
  No name of the call is applied.
\<close>

theorem board_rename_invalid_name:
  assumes "(\<exists>n. pa = Some n \<and> validate_name (Some n) = None)
           \<or> (\<exists>n. pb = Some n \<and> validate_name (Some n) = None)"
  shows "(\<forall>out. board_rename h st k pa pb ttl = Inr out
            \<longrightarrow> data out = st \<and> \<not> saved out \<and> posted out = None)
         \<and> (\<forall>board. get_board st k = Inr (Some board)
               \<longrightarrow> board_rename h st k pa pb ttl =
                   Inr \<lparr>reply = (if \<exists>n. pa = Some n \<and> validate_name (Some n) = None
                                 then BadNameA else BadNameB),
                        data = st, saved = False, posted = None\<rparr>)"
proof -
  have a: "set_player_a pa board = Inl BadNameA"
    if "\<exists>n. pa = Some n \<and> validate_name (Some n) = None" for board
    using that by (auto simp: set_player_a_def)
  have a': "\<exists>board1. set_player_a pa board = Inr board1"
    if "\<not> (\<exists>n. pa = Some n \<and> validate_name (Some n) = None)" for board
    using that by (auto simp: set_player_a_def split: option.splits)
  have b: "set_player_b pb board = Inl BadNameB"
    if "\<exists>n. pb = Some n \<and> validate_name (Some n) = None" for board
    using that by (auto simp: set_player_b_def)
  have active: "board_rename h st k pa pb ttl =
                   Inr \<lparr>reply = (if \<exists>n. pa = Some n \<and> validate_name (Some n) = None
                                 then BadNameA else BadNameB),
                        data = st, saved = False, posted = None\<rparr>"
    if g: "get_board st k = Inr (Some board)" for board
  proof (cases "\<exists>n. pa = Some n \<and> validate_name (Some n) = None")
    case True
    with g a [of board] show ?thesis by (simp add: board_rename_def reject_def)
  next
    case False
    with assms have pb: "\<exists>n. pb = Some n \<and> validate_name (Some n) = None" by blast
    from False a' [of board] obtain board1 where "set_player_a pa board = Inr board1" by blast
    with g False b [OF pb, of board1] show ?thesis by (simp add: board_rename_def reject_def)
  qed
  have any: "data out = st \<and> \<not> saved out \<and> posted out = None"
    if r: "board_rename h st k pa pb ttl = Inr out" for out
  proof (cases "get_board st k")
    case (Inl e)
    with r show ?thesis by (simp add: board_rename_def)
  next
    case (Inr ob)
    show ?thesis
    proof (cases ob)
      case None
      with Inr r show ?thesis by (auto simp: board_rename_def reject_def)
    next
      case (Some board)
      with Inr active [of board] r show ?thesis by auto
    qed
  qed
  from active any show ?thesis by blast
qed

theorem board_rename_invalid_name_witness:
  "validate_name (Some nihongo) = None
   \<and> board_rename Edited store_A key_A (Some nihongo) None None =
       Inr \<lparr>reply = BadNameA, data = store_A, saved = False, posted = None\<rparr>
   \<and> board_rename Edited store_A key_A (Some (ascii ''Rio'')) (Some nihongo) (Some (ascii ''Cup'')) =
       Inr \<lparr>reply = BadNameB, data = store_A, saved = False, posted = None\<rparr>
   \<and> get_board store_A key_A = Inr (Some scenario_A)"
proof -
  have v: "validate_name (Some nihongo) = None"
    by (simp add: validate_name_def is_ascii_def nihongo_def)
  have w: "validate_name (Some (ascii ''Rio'')) \<noteq> None"
    by (simp add: validate_name_def is_ascii_def ascii_def)
  from board_rename_invalid_name [of "Some nihongo" None Edited store_A key_A None] v
    get_board_store_A
  have 1: "board_rename Edited store_A key_A (Some nihongo) None None =
       Inr \<lparr>reply = BadNameA, data = store_A, saved = False, posted = None\<rparr>"
    by auto
  from board_rename_invalid_name [of "Some (ascii ''Rio'')" "Some nihongo" Edited store_A key_A
      "Some (ascii ''Cup'')"] v w get_board_store_A
  have 2: "board_rename Edited store_A key_A (Some (ascii ''Rio'')) (Some nihongo) (Some (ascii ''Cup'')) =
       Inr \<lparr>reply = BadNameB, data = store_A, saved = False, posted = None\<rparr>"
    by auto
  from v 1 2 get_board_store_A show ?thesis by blast
qed

text \<open>
  C10. \<open>board_rename\<close> with the empty string as title, on a key with a board and with
  names that are absent or pass validation: the saved board has the title it had, and
  each supplied name, cut to eight characters, in its field. The call does what the same
  call without a title does.
\<close>

theorem board_rename_empty_title:
  assumes "get_board st k = Inr (Some board)"
    and "\<forall>n. pa = Some n \<longrightarrow> is_ascii n" and "\<forall>n. pb = Some n \<longrightarrow> is_ascii n"
    and "delivers h"
    and "render (board\<lparr>player_a := (case pa of None \<Rightarrow> player_a board | Some n \<Rightarrow> take 8 n),
                        player_b := (case pb of None \<Rightarrow> player_b board | Some n \<Rightarrow> take 8 n)\<rparr>)
           = Inr text"
  shows "board_rename h st k pa pb (Some []) =
           Inr \<lparr>reply = Renamed,
                data = st(k \<mapsto> to_dict (republished h
                  (board\<lparr>player_a := (case pa of None \<Rightarrow> player_a board | Some n \<Rightarrow> take 8 n),
                         player_b := (case pb of None \<Rightarrow> player_b board | Some n \<Rightarrow> take 8 n)\<rparr>))),
                saved = True, posted = Some text\<rparr>
         \<and> title (republished h
                  (board\<lparr>player_a := (case pa of None \<Rightarrow> player_a board | Some n \<Rightarrow> take 8 n),
                         player_b := (case pb of None \<Rightarrow> player_b board | Some n \<Rightarrow> take 8 n)\<rparr>))
             = title board
         \<and> board_rename h st k pa pb (Some []) = board_rename h st k pa pb None"
proof -
  have a: "set_player_a pa board
             = Inr (board\<lparr>player_a := (case pa of None \<Rightarrow> player_a board | Some n \<Rightarrow> take 8 n)\<rparr>)"
    using assms(2) by (cases pa) (simp_all add: set_player_a_def validate_name_def)
  have b: "set_player_b pb b1
             = Inr (b1\<lparr>player_b := (case pb of None \<Rightarrow> player_b b1 | Some n \<Rightarrow> take 8 n)\<rparr>)" for b1
    using assms(3) by (cases pb) (simp_all add: set_player_b_def validate_name_def)
  have t: "title (republished h b1) = title b1" for b1
    by (simp add: republished_def split: host.splits send_result.splits)
  show ?thesis
    using assms(1,4,5)
    by (simp add: board_rename_def a b t publish_delivers commit_def save_board_def
        cong: option.case_cong)
qed

theorem board_rename_empty_title_witness:
  "\<exists>t. board_rename Edited store_A key_A (Some (ascii ''Leonardo99'')) None (Some []) =
          Inr \<lparr>reply = Renamed,
               data = store_A(key_A \<mapsto> to_dict (scenario_A\<lparr>player_a := ascii ''Leonardo''\<rparr>)),
               saved = True, posted = Some t\<rparr>
       \<and> title (scenario_A\<lparr>player_a := ascii ''Leonardo''\<rparr>) = ascii ''Finals''"
proof -
  have pa: "\<forall>n. Some (ascii ''Leonardo99'') = Some n \<longrightarrow> is_ascii n"
    by (simp add: is_ascii_def ascii_def)
  have pb: "\<forall>n. (None :: str option) = Some n \<longrightarrow> is_ascii n"
    by simp
  have d: "delivers Edited" by (simp add: delivers_def)
  obtain t where r: "render (scenario_A\<lparr>player_a := (case Some (ascii ''Leonardo99'') of
                         None \<Rightarrow> player_a scenario_A | Some n \<Rightarrow> take 8 n),
                       player_b := (case None of None \<Rightarrow> player_b scenario_A
                         | Some n \<Rightarrow> take 8 n)\<rparr>) = Inr t"
    using render_total [of "scenario_A\<lparr>player_a := (case Some (ascii ''Leonardo99'') of
                         None \<Rightarrow> player_a scenario_A | Some n \<Rightarrow> take 8 n),
                       player_b := (case None of None \<Rightarrow> player_b scenario_A
                         | Some n \<Rightarrow> take 8 n)\<rparr>"]
    by (auto simp: scenario_A_def)
  from board_rename_empty_title [OF get_board_store_A pa pb d r]
  show ?thesis
    by (auto simp: republished_def scenario_A_def ascii_def)
qed

text \<open>
  C6. \<open>board_start\<close> with two names that pass validation, on a key with no board or with
  a board that has no rounds and no message id (null or 0): when the message is sent, the
  file holds under the key a new board with the validated names, the given title (the
  default one when none or an empty one is given), no rounds and the id of the sent
  message. With a name that fails validation the command answers so and the file is
  unchanged; with names that pass and a board that has rounds or a message id it answers
  that a board exists and the file is unchanged.
\<close>

theorem board_start_spec:
  "(validate_name (Some pa) = Some va \<and> validate_name (Some pb) = Some vb
      \<and> (get_board st k = Inr None
          \<or> (\<exists>ex. get_board st k = Inr (Some ex) \<and> rounds ex = [] \<and> \<not> truthy_id (message_id ex)))
    \<longrightarrow> (\<exists>shown.
          render \<lparr>title = (case ttl of None \<Rightarrow> default_title
                             | Some t \<Rightarrow> if t = [] then default_title else t),
                  player_a = va, player_b = vb, rounds = [], message_id = None,
                  COL_RND = 5, COL_PLY = 10, zero_as_dash = True\<rparr> = Inr shown
          \<and> board_start (Sent mid) st k pa pb ttl =
           Inr \<lparr>reply = Created,
                data = st(k \<mapsto> to_dict
                  \<lparr>title = (case ttl of None \<Rightarrow> default_title
                             | Some t \<Rightarrow> if t = [] then default_title else t),
                   player_a = va, player_b = vb, rounds = [], message_id = Some mid,
                   COL_RND = 5, COL_PLY = 10, zero_as_dash = True\<rparr>),
                saved = True, posted = Some shown\<rparr>))
   \<and> (validate_name (Some pa) = None \<or> validate_name (Some pb) = None
    \<longrightarrow> board_start h st k pa pb ttl =
          Inr \<lparr>reply = BadName, data = st, saved = False, posted = None\<rparr>)
   \<and> (validate_name (Some pa) = Some va \<and> validate_name (Some pb) = Some vb
      \<and> get_board st k = Inr (Some ex) \<and> (rounds ex \<noteq> [] \<or> truthy_id (message_id ex))
    \<longrightarrow> board_start h st k pa pb ttl =
          Inr \<lparr>reply = AlreadyExists, data = st, saved = False, posted = None\<rparr>)"
proof -
  have created: "\<exists>shown.
          render \<lparr>title = (case ttl of None \<Rightarrow> default_title
                             | Some t \<Rightarrow> if t = [] then default_title else t),
                  player_a = va, player_b = vb, rounds = [], message_id = None,
                  COL_RND = 5, COL_PLY = 10, zero_as_dash = True\<rparr> = Inr shown
          \<and> board_start (Sent mid) st k pa pb ttl =
           Inr \<lparr>reply = Created,
                data = st(k \<mapsto> to_dict
                  \<lparr>title = (case ttl of None \<Rightarrow> default_title
                             | Some t \<Rightarrow> if t = [] then default_title else t),
                   player_a = va, player_b = vb, rounds = [], message_id = Some mid,
                   COL_RND = 5, COL_PLY = 10, zero_as_dash = True\<rparr>),
                saved = True, posted = Some shown\<rparr>"
    if "validate_name (Some pa) = Some va" "validate_name (Some pb) = Some vb"
      "get_board st k = Inr None
          \<or> (\<exists>ex. get_board st k = Inr (Some ex) \<and> rounds ex = [] \<and> \<not> truthy_id (message_id ex))"
    using that
    by (auto simp: board_start_def render_def commit_def save_board_def Let_def)
  have bad: "board_start h st k pa pb ttl =
          Inr \<lparr>reply = BadName, data = st, saved = False, posted = None\<rparr>"
    if "validate_name (Some pa) = None \<or> validate_name (Some pb) = None"
    using that by (auto simp: board_start_def reject_def split: option.splits)
  have exists: "board_start h st k pa pb ttl =
          Inr \<lparr>reply = AlreadyExists, data = st, saved = False, posted = None\<rparr>"
    if "validate_name (Some pa) = Some va" "validate_name (Some pb) = Some vb"
      "get_board st k = Inr (Some ex)" "rounds ex \<noteq> [] \<or> truthy_id (message_id ex)"
    using that by (auto simp: board_start_def reject_def)
  from created bad exists show ?thesis by blast
qed

theorem board_start_spec_witness:
  "(\<exists>shown. board_start (Sent 99) store_fresh key_A (ascii ''Reo'') (ascii ''HarunaSato'') None =
      Inr \<lparr>reply = Created,
           data = store_fresh(key_A \<mapsto> to_dict
             \<lparr>title = default_title, player_a = ascii ''Reo'', player_b = ascii ''HarunaSa'',
              rounds = [], message_id = Some 99, COL_RND = 5, COL_PLY = 10,
              zero_as_dash = True\<rparr>),
           saved = True, posted = Some shown\<rparr>)
   \<and> board_start (Sent 99) store_fresh key_A nihongo (ascii ''Haruna'') None =
       Inr \<lparr>reply = BadName, data = store_fresh, saved = False, posted = None\<rparr>
   \<and> board_start (Sent 99) store_A key_A (ascii ''Reo'') (ascii ''HarunaSato'') None =
       Inr \<lparr>reply = AlreadyExists, data = store_A, saved = False, posted = None\<rparr>"
proof -
  have va: "validate_name (Some (ascii ''Reo'')) = Some (ascii ''Reo'')"
    by (simp add: validate_name_def is_ascii_def ascii_def)
  have vb: "validate_name (Some (ascii ''HarunaSato'')) = Some (ascii ''HarunaSa'')"
    by (simp add: validate_name_def is_ascii_def ascii_def)
  have vn: "validate_name (Some nihongo) = None"
    by (simp add: validate_name_def is_ascii_def nihongo_def)
  have fresh: "rounds fresh_board = []" by (simp add: fresh_board_def)
  have busy: "rounds scenario_A \<noteq> []" by (simp add: scenario_A_def)
  note spec1 = board_start_spec [where pa = "ascii ''Reo''" and va = "ascii ''Reo''"
      and pb = "ascii ''HarunaSato''" and vb = "ascii ''HarunaSa''" and st = store_fresh
      and k = key_A and mid = 99 and ttl = None]
  note spec2 = board_start_spec [where pa = nihongo and pb = "ascii ''Haruna''"
      and st = store_fresh and k = key_A and ttl = None and h = "Sent 99"]
  note spec3 = board_start_spec [where pa = "ascii ''Reo''" and va = "ascii ''Reo''"
      and pb = "ascii ''HarunaSato''" and vb = "ascii ''HarunaSa''" and st = store_A
      and k = key_A and ttl = None and h = "Sent 99" and ex = scenario_A]
  from spec1 va vb get_board_store_fresh fresh not_truthy_fresh
  have 1: "\<exists>shown. board_start (Sent 99) store_fresh key_A (ascii ''Reo'') (ascii ''HarunaSato'') None =
      Inr \<lparr>reply = Created,
           data = store_fresh(key_A \<mapsto> to_dict
             \<lparr>title = default_title, player_a = ascii ''Reo'', player_b = ascii ''HarunaSa'',
              rounds = [], message_id = Some 99, COL_RND = 5, COL_PLY = 10,
              zero_as_dash = True\<rparr>),
           saved = True, posted = Some shown\<rparr>"
    by auto
  from spec2 vn
  have 2: "board_start (Sent 99) store_fresh key_A nihongo (ascii ''Haruna'') None =
       Inr \<lparr>reply = BadName, data = store_fresh, saved = False, posted = None\<rparr>"
    by blast
  from spec3 va vb get_board_store_A busy
  have 3: "board_start (Sent 99) store_A key_A (ascii ''Reo'') (ascii ''HarunaSato'') None =
       Inr \<lparr>reply = AlreadyExists, data = store_A, saved = False, posted = None\<rparr>"
    by blast
  from 1 2 3 show ?thesis by blast
qed

text \<open>
  C7. \<open>board_edit\<close> on a key with a board. With a round number from 1 to the number of
  rounds, and the service publishing, the saved board has that round replaced by
  \<open>edited_round\<close> (each supplied score overwritten, the other kept) and every other
  round as it was. With rounds and a round number outside that range, the answer states
  the round number and the current maximum, and the file is unchanged. With no rounds the
  command answers that there is no board, and the file is unchanged.
\<close>

theorem board_edit_spec:
  assumes "get_board st k = Inr (Some board)"
  shows "(1 \<le> round_no \<and> round_no \<le> int (length (rounds board)) \<and> delivers h
           \<and> render (board\<lparr>rounds := (rounds board)[nat (round_no - 1) :=
                 edited_round (rounds board ! nat (round_no - 1)) x y]\<rparr>) = Inr text
          \<longrightarrow> board_edit h st k round_no x y =
               Inr \<lparr>reply = EditedRound round_no
                        (score_a (edited_round (rounds board ! nat (round_no - 1)) x y))
                        (score_b (edited_round (rounds board ! nat (round_no - 1)) x y)),
                    data = st(k \<mapsto> to_dict (republished h
                      (board\<lparr>rounds := (rounds board)[nat (round_no - 1) :=
                         edited_round (rounds board ! nat (round_no - 1)) x y]\<rparr>))),
                    saved = True, posted = Some text\<rparr>)
         \<and> (rounds board \<noteq> [] \<and> (round_no < 1 \<or> int (length (rounds board)) < round_no)
          \<longrightarrow> board_edit h st k round_no x y =
               Inr \<lparr>reply = NoSuchRound round_no (length (rounds board)),
                    data = st, saved = False, posted = None\<rparr>)
         \<and> (rounds board = []
          \<longrightarrow> board_edit h st k round_no x y =
               Inr \<lparr>reply = NoBoard, data = st, saved = False, posted = None\<rparr>)"
proof -
  have r: "(case y of None \<Rightarrow> (case x of None \<Rightarrow> r0 | Some v \<Rightarrow> r0\<lparr>score_a := v\<rparr>)
             | Some v \<Rightarrow> (case x of None \<Rightarrow> r0 | Some v \<Rightarrow> r0\<lparr>score_a := v\<rparr>)\<lparr>score_b := v\<rparr>)
           = edited_round r0 x y" for r0 :: Round
    by (cases x; cases y) (simp_all add: edited_round_def)
  have ok: "board_edit h st k round_no x y =
               Inr \<lparr>reply = EditedRound round_no
                        (score_a (edited_round (rounds board ! nat (round_no - 1)) x y))
                        (score_b (edited_round (rounds board ! nat (round_no - 1)) x y)),
                    data = st(k \<mapsto> to_dict (republished h
                      (board\<lparr>rounds := (rounds board)[nat (round_no - 1) :=
                         edited_round (rounds board ! nat (round_no - 1)) x y]\<rparr>))),
                    saved = True, posted = Some text\<rparr>"
    if "1 \<le> round_no" "round_no \<le> int (length (rounds board))" "delivers h"
      "render (board\<lparr>rounds := (rounds board)[nat (round_no - 1) :=
                 edited_round (rounds board ! nat (round_no - 1)) x y]\<rparr>) = Inr text"
  proof -
    from that(1,2) have ne: "rounds board \<noteq> []" by auto
    with assms that show ?thesis
      by (simp add: board_edit_def Let_def r publish_delivers commit_def save_board_def)
  qed
  have range: "board_edit h st k round_no x y =
               Inr \<lparr>reply = NoSuchRound round_no (length (rounds board)),
                    data = st, saved = False, posted = None\<rparr>"
    if "rounds board \<noteq> []" "round_no < 1 \<or> int (length (rounds board)) < round_no"
    using assms that by (auto simp: board_edit_def reject_def)
  have none: "board_edit h st k round_no x y =
               Inr \<lparr>reply = NoBoard, data = st, saved = False, posted = None\<rparr>"
    if "rounds board = []"
    using assms that by (simp add: board_edit_def reject_def)
  from ok range none show ?thesis by blast
qed

theorem board_edit_spec_witness:
  "(\<exists>t. board_edit Edited store_A key_A 1 None (Some 5) =
      Inr \<lparr>reply = EditedRound 1 3 5,
           data = store_A(key_A \<mapsto> to_dict
             (scenario_A\<lparr>rounds := [\<lparr>score_a = 3, score_b = 5\<rparr>, \<lparr>score_a = 0, score_b = 2\<rparr>]\<rparr>)),
           saved = True, posted = Some t\<rparr>)
   \<and> board_edit Edited store_A key_A 3 None (Some 5) =
       Inr \<lparr>reply = NoSuchRound 3 2, data = store_A, saved = False, posted = None\<rparr>
   \<and> board_edit Edited store_fresh key_A 1 None (Some 5) =
       Inr \<lparr>reply = NoBoard, data = store_fresh, saved = False, posted = None\<rparr>"
proof -
  have d: "delivers Edited" by (simp add: delivers_def)
  have rs: "rounds scenario_A = [\<lparr>score_a = 3, score_b = 1\<rparr>, \<lparr>score_a = 0, score_b = 2\<rparr>]"
    by (simp add: scenario_A_def)
  have er: "edited_round \<lparr>score_a = 3, score_b = 1\<rparr> None (Some 5) = \<lparr>score_a = 3, score_b = 5\<rparr>"
    by (simp add: edited_round_def)
  obtain t where r: "render (scenario_A\<lparr>rounds := (rounds scenario_A)[nat (1 - 1) :=
               edited_round (rounds scenario_A ! nat (1 - 1)) None (Some 5)]\<rparr>) = Inr t"
    using render_total [of "scenario_A\<lparr>rounds := (rounds scenario_A)[nat (1 - 1) :=
               edited_round (rounds scenario_A ! nat (1 - 1)) None (Some 5)]\<rparr>"]
    by (auto simp: scenario_A_def)
  from board_edit_spec [OF get_board_store_A, of 1 Edited None "Some 5" t] d r
  have "board_edit Edited store_A key_A 1 None (Some 5) =
      Inr \<lparr>reply = EditedRound 1
               (score_a (edited_round (rounds scenario_A ! nat (1 - 1)) None (Some 5)))
               (score_b (edited_round (rounds scenario_A ! nat (1 - 1)) None (Some 5))),
           data = store_A(key_A \<mapsto> to_dict (republished Edited
             (scenario_A\<lparr>rounds := (rounds scenario_A)[nat (1 - 1) :=
               edited_round (rounds scenario_A ! nat (1 - 1)) None (Some 5)]\<rparr>))),
           saved = True, posted = Some t\<rparr>"
    by (simp add: rs)
  then have 1: "\<exists>t. board_edit Edited store_A key_A 1 None (Some 5) =
      Inr \<lparr>reply = EditedRound 1 3 5,
           data = store_A(key_A \<mapsto> to_dict
             (scenario_A\<lparr>rounds := [\<lparr>score_a = 3, score_b = 5\<rparr>, \<lparr>score_a = 0, score_b = 2\<rparr>]\<rparr>)),
           saved = True, posted = Some t\<rparr>"
    by (simp add: rs er republished_def)
  from board_edit_spec [OF get_board_store_A, of 3 Edited None "Some 5"]
  have 2: "board_edit Edited store_A key_A 3 None (Some 5) =
       Inr \<lparr>reply = NoSuchRound 3 2, data = store_A, saved = False, posted = None\<rparr>"
    by (simp add: rs)
  from board_edit_spec [OF get_board_store_fresh, of 1 Edited None "Some 5"]
  have 3: "board_edit Edited store_fresh key_A 1 None (Some 5) =
       Inr \<lparr>reply = NoBoard, data = store_fresh, saved = False, posted = None\<rparr>"
    by (simp add: fresh_board_def)
  from 1 2 3 show ?thesis by blast
qed

section \<open>The zero style\<close>

text \<open>On an ASCII string \<open>lower\<close> maps letter by letter; a code point from 128 on
  leaves its lower-case form in the result. So the lower-case form of \<open>s\<close> is a word of
  lower-case ASCII letters exactly when \<open>s\<close> is a capitalization of the word, provided
  no lower-case form of a code point from 128 on consists of letters of the word only.\<close>

lemma lower_ascii:
  assumes "\<forall>c\<in>set s. c < 128"
  shows "lower ul s = map (\<lambda>c. if 65 \<le> c \<and> c \<le> 90 then c + 32 else c) s"
proof -
  have pieces: "map (\<lambda>i. let c = s ! i in
                    if 65 \<le> c \<and> c \<le> 90 then [c + 32] else if c < 128 then [c] else ul s i)
          [0 ..< length s]
        = map (\<lambda>i. [if 65 \<le> s ! i \<and> s ! i \<le> 90 then s ! i + 32 else s ! i]) [0 ..< length s]"
    using assms by (auto simp: Let_def)
  have "lower ul s
        = concat (map (\<lambda>i. [if 65 \<le> s ! i \<and> s ! i \<le> 90 then s ! i + 32 else s ! i])
            [0 ..< length s])"
    unfolding lower_def by (simp only: pieces)
  also have "\<dots> = map (\<lambda>i. if 65 \<le> s ! i \<and> s ! i \<le> 90 then s ! i + 32 else s ! i)
                     [0 ..< length s]"
    by (rule concat_map_singleton)
  also have "\<dots> = map (\<lambda>c. if 65 \<le> c \<and> c \<le> 90 then c + 32 else c) (map (nth s) [0 ..< length s])"
    by (simp add: comp_def)
  also have "\<dots> = map (\<lambda>c. if 65 \<le> c \<and> c \<le> 90 then c + 32 else c) s"
    by (simp only: map_nth)
  finally show ?thesis .
qed

lemma lower_keeps_beyond_ascii:
  assumes "i < length s" and "128 \<le> s ! i"
  shows "set (ul s i) \<subseteq> set (lower ul s)"
proof
  fix c assume c: "c \<in> set (ul s i)"
  from assms(2) have "(let c = s ! i in
          if 65 \<le> c \<and> c \<le> 90 then [c + 32] else if c < 128 then [c] else ul s i) = ul s i"
    by (simp add: Let_def)
  with c assms(1) show "c \<in> set (lower ul s)"
    unfolding lower_def set_concat by (intro UN_I [of "ul s i"]) (auto intro!: image_eqI [of _ _ i])
qed

lemma lower_eq_word:
  assumes ul: "\<forall>s i. i < length s \<longrightarrow> 128 \<le> s ! i \<longrightarrow> (\<exists>c\<in>set (ul s i). c \<notin> set (ascii w))"
    and w: "\<forall>l\<in>set (ascii w). 97 \<le> l \<and> l \<le> 122"
  shows "lower ul s = ascii w \<longleftrightarrow> capitalization_of w s"
proof
  assume eq: "lower ul s = ascii w"
  have asc: "\<forall>c\<in>set s. c < 128"
  proof (rule ccontr)
    assume "\<not> (\<forall>c\<in>set s. c < 128)"
    then obtain c where "c \<in> set s" "128 \<le> c" by (auto simp: not_less)
    then obtain i where i: "i < length s" "128 \<le> s ! i"
      by (auto simp: in_set_conv_nth)
    with ul obtain c where c: "c \<in> set (ul s i)" "c \<notin> set (ascii w)" by blast
    from lower_keeps_beyond_ascii [OF i, of ul] c(1) have "c \<in> set (lower ul s)" by blast
    with eq c(2) show False by simp
  qed
  from lower_ascii [OF asc, of ul] eq
  have m: "map (\<lambda>c. if 65 \<le> c \<and> c \<le> 90 then c + 32 else c) s = ascii w" by simp
  from arg_cong [OF m, of length] have len: "length s = length (ascii w)" by simp
  have "s ! i = ascii w ! i \<or> s ! i + 32 = ascii w ! i" if i: "i < length s" for i
  proof -
    from arg_cong [OF m, of "\<lambda>xs. xs ! i"] i
    have "(if 65 \<le> s ! i \<and> s ! i \<le> 90 then s ! i + 32 else s ! i) = ascii w ! i" by simp
    then show ?thesis by (simp split: if_splits)
  qed
  with len show "capitalization_of w s"
    by (simp add: capitalization_of_def list_all2_conv_all_nth)
next
  assume cap: "capitalization_of w s"
  then have len: "length s = length (ascii w)"
    and each: "\<And>i. i < length s \<Longrightarrow> s ! i = ascii w ! i \<or> s ! i + 32 = ascii w ! i"
    by (simp_all add: capitalization_of_def list_all2_conv_all_nth)
  have low: "97 \<le> ascii w ! i \<and> ascii w ! i \<le> 122" if "i < length s" for i
  proof -
    from that len have "ascii w ! i \<in> set (ascii w)" by (simp only: nth_mem)
    with w show ?thesis by blast
  qed
  have step: "(if 65 \<le> s ! i \<and> s ! i \<le> 90 then s ! i + 32 else s ! i) = ascii w ! i
              \<and> s ! i < 128" if "i < length s" for i
    using each [OF that] low [OF that] by auto
  have asc: "\<forall>c\<in>set s. c < 128"
  proof
    fix c assume "c \<in> set s"
    then obtain i where "i < length s" "s ! i = c" by (auto simp: in_set_conv_nth)
    with step [of i] show "c < 128" by simp
  qed
  have "map (\<lambda>c. if 65 \<le> c \<and> c \<le> 90 then c + 32 else c) s = ascii w"
    using len step by (intro nth_equalityI) simp_all
  with lower_ascii [OF asc, of ul] show "lower ul s = ascii w" by simp
qed

text \<open>
  C9. \<open>board_zero_style\<close> on a key with a board compares the lower-case form of the
  style. Every capitalization of \<open>dash\<close> sets the zero style to true and every
  capitalization of \<open>zero\<close> sets it to false (when the service publishes); every other
  style is answered with "the style must be dash or zero" and the file is unchanged. The
  assumption on \<open>ul\<close> is a fact of the Unicode tables: the lower-case form of a code
  point from 128 on has a code point that is none of the letters of the two words (it is
  never empty, and only two such forms have an ASCII letter at all, \<open>i\<close> and \<open>k\<close>).
\<close>

theorem board_zero_style_spec:
  assumes ul: "\<forall>s i. i < length s \<longrightarrow> 128 \<le> s ! i
                  \<longrightarrow> (\<exists>c\<in>set (ul s i). c \<notin> set (ascii ''dashzero''))"
    and active: "get_board st k = Inr (Some board)"
  shows "(capitalization_of ''dash'' style \<and> delivers h
            \<and> render (board\<lparr>zero_as_dash := True\<rparr>) = Inr text
          \<longrightarrow> board_zero_style ul h st k style =
               Inr \<lparr>reply = StyleSet True,
                    data = st(k \<mapsto> to_dict (republished h (board\<lparr>zero_as_dash := True\<rparr>))),
                    saved = True, posted = Some text\<rparr>)
         \<and> (capitalization_of ''zero'' style \<and> delivers h
            \<and> render (board\<lparr>zero_as_dash := False\<rparr>) = Inr text
          \<longrightarrow> board_zero_style ul h st k style =
               Inr \<lparr>reply = StyleSet False,
                    data = st(k \<mapsto> to_dict (republished h (board\<lparr>zero_as_dash := False\<rparr>))),
                    saved = True, posted = Some text\<rparr>)
         \<and> (\<not> capitalization_of ''dash'' style \<and> \<not> capitalization_of ''zero'' style
          \<longrightarrow> board_zero_style ul h st k style =
               Inr \<lparr>reply = BadStyle, data = st, saved = False, posted = None\<rparr>)"
proof -
  have ul_dash: "\<forall>s i. i < length s \<longrightarrow> 128 \<le> s ! i
                   \<longrightarrow> (\<exists>c\<in>set (ul s i). c \<notin> set (ascii ''dash''))"
  proof (intro allI impI)
    fix s :: str and i assume "i < length s" "128 \<le> s ! i"
    with ul obtain c where "c \<in> set (ul s i)" "c \<notin> set (ascii ''dashzero'')" by blast
    then show "\<exists>c\<in>set (ul s i). c \<notin> set (ascii ''dash'')"
      by (intro bexI [of _ c]) (simp_all add: ascii_def)
  qed
  have ul_zero: "\<forall>s i. i < length s \<longrightarrow> 128 \<le> s ! i
                   \<longrightarrow> (\<exists>c\<in>set (ul s i). c \<notin> set (ascii ''zero''))"
  proof (intro allI impI)
    fix s :: str and i assume "i < length s" "128 \<le> s ! i"
    with ul obtain c where "c \<in> set (ul s i)" "c \<notin> set (ascii ''dashzero'')" by blast
    then show "\<exists>c\<in>set (ul s i). c \<notin> set (ascii ''zero'')"
      by (intro bexI [of _ c]) (simp_all add: ascii_def)
  qed
  have dash: "lower ul style = ascii ''dash'' \<longleftrightarrow> capitalization_of ''dash'' style"
    by (rule lower_eq_word [OF ul_dash]) (simp add: ascii_def)
  have zero: "lower ul style = ascii ''zero'' \<longleftrightarrow> capitalization_of ''zero'' style"
    by (rule lower_eq_word [OF ul_zero]) (simp add: ascii_def)
  have differ: "ascii ''zero'' \<noteq> ascii ''dash''"
    by (simp add: ascii_def)
  have rep: "zero_as_dash (republished h b) = zero_as_dash b" for b
    by (simp add: republished_def split: host.splits send_result.splits)
  have set_dash: "board_zero_style ul h st k style =
               Inr \<lparr>reply = StyleSet True,
                    data = st(k \<mapsto> to_dict (republished h (board\<lparr>zero_as_dash := True\<rparr>))),
                    saved = True, posted = Some text\<rparr>"
    if "capitalization_of ''dash'' style" "delivers h"
      "render (board\<lparr>zero_as_dash := True\<rparr>) = Inr text"
    using that active dash
    by (simp add: board_zero_style_def publish_delivers commit_def save_board_def rep)
  have set_zero: "board_zero_style ul h st k style =
               Inr \<lparr>reply = StyleSet False,
                    data = st(k \<mapsto> to_dict (republished h (board\<lparr>zero_as_dash := False\<rparr>))),
                    saved = True, posted = Some text\<rparr>"
    if "capitalization_of ''zero'' style" "delivers h"
      "render (board\<lparr>zero_as_dash := False\<rparr>) = Inr text"
  proof -
    from that(1) zero have z: "lower ul style = ascii ''zero''" by simp
    with differ have nd: "lower ul style \<noteq> ascii ''dash''" by simp
    from that(2,3) active z nd show ?thesis
      by (simp add: board_zero_style_def publish_delivers commit_def save_board_def rep)
  qed
  have other: "board_zero_style ul h st k style =
               Inr \<lparr>reply = BadStyle, data = st, saved = False, posted = None\<rparr>"
    if "\<not> capitalization_of ''dash'' style" "\<not> capitalization_of ''zero'' style"
    using that active dash zero by (simp add: board_zero_style_def reject_def)
  from set_dash set_zero other show ?thesis by blast
qed

theorem board_zero_style_spec_witness:
  "(\<exists>t. board_zero_style keep_case Edited store_A key_A (ascii ''ZeRo'') =
      Inr \<lparr>reply = StyleSet False,
           data = store_A(key_A \<mapsto> to_dict (scenario_A\<lparr>zero_as_dash := False\<rparr>)),
           saved = True, posted = Some t\<rparr>)
   \<and> (\<exists>t. board_zero_style keep_case Edited store_fresh key_A (ascii ''DASH'') =
      Inr \<lparr>reply = StyleSet True,
           data = store_fresh(key_A \<mapsto> to_dict (fresh_board\<lparr>zero_as_dash := True\<rparr>)),
           saved = True, posted = Some t\<rparr>)
   \<and> board_zero_style keep_case Edited store_A key_A (ascii ''dashes'') =
       Inr \<lparr>reply = BadStyle, data = store_A, saved = False, posted = None\<rparr>"
proof -
  have ul: "\<forall>s i. i < length s \<longrightarrow> 128 \<le> s ! i
              \<longrightarrow> (\<exists>c\<in>set (keep_case s i). c \<notin> set (ascii ''dashzero''))"
    by (auto simp: keep_case_def ascii_def)
  have d: "delivers Edited" by (simp add: delivers_def)
  have cz: "capitalization_of ''zero'' (ascii ''ZeRo'')"
    by (simp add: capitalization_of_def ascii_def)
  have cd: "capitalization_of ''dash'' (ascii ''DASH'')"
    by (simp add: capitalization_of_def ascii_def)
  have n1: "\<not> capitalization_of ''dash'' (ascii ''dashes'')"
    and n2: "\<not> capitalization_of ''zero'' (ascii ''dashes'')"
    by (simp_all add: capitalization_of_def ascii_def)
  obtain t1 where r1: "render (scenario_A\<lparr>zero_as_dash := False\<rparr>) = Inr t1"
    using render_total [of "scenario_A\<lparr>zero_as_dash := False\<rparr>"] by (auto simp: scenario_A_def)
  obtain t2 where r2: "render (fresh_board\<lparr>zero_as_dash := True\<rparr>) = Inr t2"
    using render_total [of "fresh_board\<lparr>zero_as_dash := True\<rparr>"] by (auto simp: fresh_board_def)
  from board_zero_style_spec [OF ul get_board_store_A, of "ascii ''ZeRo''" Edited t1] cz d r1
  have 1: "\<exists>t. board_zero_style keep_case Edited store_A key_A (ascii ''ZeRo'') =
      Inr \<lparr>reply = StyleSet False,
           data = store_A(key_A \<mapsto> to_dict (scenario_A\<lparr>zero_as_dash := False\<rparr>)),
           saved = True, posted = Some t\<rparr>"
    by (simp add: republished_def)
  from board_zero_style_spec [OF ul get_board_store_fresh, of "ascii ''DASH''" Edited t2] cd d r2
  have 2: "\<exists>t. board_zero_style keep_case Edited store_fresh key_A (ascii ''DASH'') =
      Inr \<lparr>reply = StyleSet True,
           data = store_fresh(key_A \<mapsto> to_dict (fresh_board\<lparr>zero_as_dash := True\<rparr>)),
           saved = True, posted = Some t\<rparr>"
    by (simp add: republished_def)
  from board_zero_style_spec [OF ul get_board_store_A, of "ascii ''dashes''" Edited] n1 n2
  have 3: "board_zero_style keep_case Edited store_A key_A (ascii ''dashes'') =
       Inr \<lparr>reply = BadStyle, data = store_A, saved = False, posted = None\<rparr>"
    by simp
  from 1 2 3 show ?thesis by blast
qed

end
